theory Spec2Isabelle
  imports Complex_Main
begin

section \<open>Data model\<close>

text \<open>
  The risk level of \<^verbatim>\<open>DetectionResult\<close> in \<^verbatim>\<open>components/webcam-feed.tsx\<close>:
  the string union \<^verbatim>\<open>"low" | "medium" | "high"\<close>.
\<close>

datatype risk = Low | Medium | High

text \<open>The ordinal position of a risk level: low < medium < high.\<close>

fun risk_rank :: "risk \<Rightarrow> nat" where
  "risk_rank Low = 0"
| "risk_rank Medium = 1"
| "risk_rank High = 2"

text \<open>
  A bounding box as the generators build it. The webcam variant leaves
  \<^verbatim>\<open>confidence\<close> out, the route variants set it.
\<close>

record box =
  x :: real
  y :: real
  width :: real
  height :: real
  confidence :: "real option"

record DetectionResult =
  count :: int
  riskLevel :: risk
  boundingBoxes :: "box list"

text \<open>
  \<^verbatim>\<open>Math.random()\<close> is modelled by the sequence of the numbers it returns:
  \<open>rng n\<close> is the value of the \<open>n\<close>-th call. JavaScript numbers are taken as reals.
  The contract of \<^verbatim>\<open>Math.random\<close> is that every value lies in [0, 1).
\<close>

type_synonym rng = "nat \<Rightarrow> real"

definition unit_rng :: "rng \<Rightarrow> bool" where
  "unit_rng r = (\<forall>n. 0 \<le> r n \<and> r n < 1)"

section \<open>The mock detection generators\<close>

subsection \<open>Route variant\<close>

text \<open>
  The three lines that set \<^verbatim>\<open>riskLevel\<close> in \<^verbatim>\<open>generateMockDetections\<close> of the
  detect-crowd route:
  \<^verbatim>\<open>if (count > 10) riskLevel = "high" else if (count > 6) riskLevel = "medium"\<close>,
  with \<^verbatim>\<open>"low"\<close> as the initial value.
\<close>

definition riskLevel_route :: "int \<Rightarrow> risk" where
  "riskLevel_route c = (if c > 10 then High else if c > 6 then Medium else Low)"

text \<open>
  One element of \<^verbatim>\<open>boundingBoxes\<close>: five calls of \<^verbatim>\<open>Math.random\<close>, in the order of
  the object literal, starting at call number \<open>p\<close>.
\<close>

definition mkBox_route :: "rng \<Rightarrow> nat \<Rightarrow> box" where
  "mkBox_route r p =
     \<lparr> x = r p * 0.7 + 0.1,
       y = r (p + 1) * 0.6 + 0.1,
       width = 0.08 + r (p + 2) * 0.06,
       height = 0.12 + r (p + 3) * 0.1,
       confidence = Some (0.7 + r (p + 4) * 0.3) \<rparr>"

text \<open>
  \<^verbatim>\<open>generateMockDetections\<close> of the route, started when \<open>p\<close> calls of \<^verbatim>\<open>Math.random\<close>
  have been made; it returns the result and the number of calls made afterwards.
  \<^verbatim>\<open>Array.from({ length: count }, f)\<close> calls \<open>f\<close> for the indices
  \<open>0, ..., count - 1\<close> in order.
\<close>

definition generateMockDetections_route :: "rng \<Rightarrow> nat \<Rightarrow> DetectionResult \<times> nat" where
  "generateMockDetections_route r p =
     (let c = \<lfloor>r p * 15\<rfloor> + 1;
          bs = map (\<lambda>i. mkBox_route r (p + 1 + 5 * i)) [0..<nat c]
      in (\<lparr> count = c, riskLevel = riskLevel_route c, boundingBoxes = bs \<rparr>,
          p + 1 + 5 * nat c))"

subsection \<open>Webcam variant\<close>

text \<open>
  The same lines in \<^verbatim>\<open>generateMockDetections\<close> of \<^verbatim>\<open>webcam-feed.tsx\<close>:
  \<^verbatim>\<open>if (count > 7) riskLevel = "high" else if (count > 4) riskLevel = "medium"\<close>.
\<close>

definition riskLevel_webcam :: "int \<Rightarrow> risk" where
  "riskLevel_webcam c = (if c > 7 then High else if c > 4 then Medium else Low)"

definition mkBox_webcam :: "rng \<Rightarrow> nat \<Rightarrow> box" where
  "mkBox_webcam r p =
     \<lparr> x = r p * 0.7 + 0.1,
       y = r (p + 1) * 0.6 + 0.1,
       width = 0.1 + r (p + 2) * 0.05,
       height = 0.15 + r (p + 3) * 0.1,
       confidence = None \<rparr>"

definition generateMockDetections_webcam :: "rng \<Rightarrow> nat \<Rightarrow> DetectionResult \<times> nat" where
  "generateMockDetections_webcam r p =
     (let c = \<lfloor>r p * 10\<rfloor> + 1;
          bs = map (\<lambda>i. mkBox_webcam r (p + 1 + 4 * i)) [0..<nat c]
      in (\<lparr> count = c, riskLevel = riskLevel_webcam c, boundingBoxes = bs \<rparr>,
          p + 1 + 4 * nat c))"

section \<open>The risk bands\<close>

text \<open>
  The classifier as the specification words it, with the two thresholds as
  parameters: low below the medium threshold, medium below the high threshold,
  high otherwise. It is compared with the two classifiers of the source below.
\<close>

definition classify_spec :: "int \<Rightarrow> int \<Rightarrow> int \<Rightarrow> risk" where
  "classify_spec medium_threshold high_threshold c =
     (if c < medium_threshold then Low
      else if c < high_threshold then Medium
      else High)"

section \<open>What the camera card displays\<close>

text \<open>
  The fields of the \<^verbatim>\<open>camera\<close> prop that the logic of \<^verbatim>\<open>WebcamFeed\<close> reads.
\<close>

datatype camera_status = Online | Offline




section \<open>The detect-crowd route\<close>

text \<open>
  The JSON body of a request, after \<^verbatim>\<open>await request.json()\<close> and the destructuring
  of \<^verbatim>\<open>image\<close> and \<^verbatim>\<open>cameraId\<close>. \<open>BadJson\<close> is a body on which that line throws;
  an absent \<^verbatim>\<open>image\<close> is \<open>None\<close>.
\<close>

datatype request_body = BadJson | Body (image: "string option") (cameraId: string)

text \<open>
  The outcome of a \<^verbatim>\<open>fetch\<close> followed by \<^verbatim>\<open>response.json()\<close>: the promise is rejected
  (network error, timeout), or a response arrives with a status and a body. The
  body is \<open>None\<close> when no detection result can be read from it.
\<close>

datatype fetch_outcome = FetchRejected | FetchResponse nat "DetectionResult option"

text \<open>\<^verbatim>\<open>response.ok\<close>: the status is in the range 200-299.\<close>

definition ok :: "nat \<Rightarrow> bool" where
  "ok st = (200 \<le> st \<and> st \<le> 299)"

datatype payload = ErrorBody string | DetectionBody DetectionResult

datatype response = Response (status: nat) (payload: payload)

text \<open>The alert event handed to \<^verbatim>\<open>sendAlertToAndroidApp\<close>.\<close>

record alert =
  alert_cameraId :: string
  alert_count :: int
  alert_riskLevel :: risk
  alert_timestamp :: string

text \<open>
  The document written to the \<^verbatim>\<open>alerts\<close> collection. Its \<^verbatim>\<open>timestamp\<close> is the
  sentinel \<^verbatim>\<open>serverTimestamp()\<close>, the same in every document, and is left out.
\<close>

record alert_doc =
  doc_cameraId :: string
  doc_count :: int
  doc_riskLevel :: risk
  doc_acknowledged :: bool
  doc_location :: string
  doc_message :: string

datatype log_line =
    LogAlertStored
  | ErrFirestore
  | LogAlertSent alert
  | ErrDetectionApi
  | ErrMlApi

text \<open>
  What a request meets outside the handler: the answer of the inference server
  (read by the inference variant only), whether \<^verbatim>\<open>addDoc\<close> resolves or rejects,
  and the value of \<^verbatim>\<open>new Date().toISOString()\<close>.
\<close>

record env =
  ml :: fetch_outcome
  firestore_ok :: bool
  now :: string

text \<open>
  What the handler changes: the \<^verbatim>\<open>alerts\<close> collection, the console, and the number
  of calls of \<^verbatim>\<open>Math.random\<close> made so far.
\<close>

record world =
  alerts_collection :: "alert_doc list"
  console :: "log_line list"
  random_calls :: nat

text \<open>The decimal form of a number in a template string.\<close>

fun show_nat :: "nat \<Rightarrow> string" where
  "show_nat n =
     (if n < 10 then [''0123456789'' ! n]
      else show_nat (n div 10) @ [''0123456789'' ! (n mod 10)])"

definition show_int :: "int \<Rightarrow> string" where
  "show_int i = (if i < 0 then CHR ''-'' # show_nat (nat (- i)) else show_nat (nat i))"

text \<open>
  The \<^verbatim>\<open>try\<close> block around \<^verbatim>\<open>addDoc\<close>: the document is stored and the success is
  logged, or the rejection is caught and logged.
\<close>

definition storeAlert :: "bool \<Rightarrow> string \<Rightarrow> DetectionResult \<Rightarrow> world \<Rightarrow> world" where
  "storeAlert fs_ok cam d w =
     (if fs_ok then
        w\<lparr> alerts_collection := alerts_collection w @
              [\<lparr> doc_cameraId = cam, doc_count = count d, doc_riskLevel = riskLevel d,
                 doc_acknowledged = False, doc_location = ''Main Entrance'',
                 doc_message = ''High risk detected: '' @ show_int (count d) @ '' people'' \<rparr>],
           console := console w @ [LogAlertStored] \<rparr>
      else w\<lparr> console := console w @ [ErrFirestore] \<rparr>)"

text \<open>
  \<^verbatim>\<open>sendAlertToAndroidApp\<close>: the body of its \<^verbatim>\<open>try\<close> is one \<^verbatim>\<open>console.log\<close> of the
  alert, which does not throw, so its \<^verbatim>\<open>catch\<close> is never entered.
\<close>

definition sendAlertToAndroidApp :: "alert \<Rightarrow> world \<Rightarrow> world" where
  "sendAlertToAndroidApp a w = w\<lparr> console := console w @ [LogAlertSent a] \<rparr>"

text \<open>
  The block under \<^verbatim>\<open>riskLevel === "high"\<close>, the same in both variants of
  the handler.
\<close>

definition handleAlert :: "env \<Rightarrow> string \<Rightarrow> DetectionResult \<Rightarrow> world \<Rightarrow> world" where
  "handleAlert e cam d w =
     (if riskLevel d = High then
        sendAlertToAndroidApp
          \<lparr> alert_cameraId = cam, alert_count = count d,
            alert_riskLevel = riskLevel d, alert_timestamp = now e \<rparr>
          (storeAlert (firestore_ok e) cam d w)
      else w)"

text \<open>The outer \<^verbatim>\<open>catch\<close>: the error is logged and the answer is a 500.\<close>

definition detectionFailed :: "world \<Rightarrow> response \<times> world" where
  "detectionFailed w =
     (Response 500 (ErrorBody ''Detection failed''), w\<lparr> console := console w @ [ErrDetectionApi] \<rparr>)"

text \<open>\<^verbatim>\<open>!image\<close>: the image is absent or the empty string.\<close>

definition noImage :: "string option \<Rightarrow> bool" where
  "noImage img = (img = None \<or> img = Some [])"

text \<open>
  \<^verbatim>\<open>POST\<close> of the variant that forwards the image to the inference server.
\<close>

definition POST_inference :: "request_body \<Rightarrow> env \<Rightarrow> world \<Rightarrow> response \<times> world" where
  "POST_inference req e w =
     (case req of
        BadJson \<Rightarrow> detectionFailed w
      | Body img cam \<Rightarrow>
          if noImage img then (Response 400 (ErrorBody ''No image provided''), w)
          else
            (case ml e of
               FetchRejected \<Rightarrow> detectionFailed w
             | FetchResponse st body \<Rightarrow>
                 if \<not> ok st then detectionFailed w
                 else
                   (case body of
                      None \<Rightarrow> detectionFailed w
                    | Some mlDetections \<Rightarrow>
                        (Response 200 (DetectionBody mlDetections),
                         handleAlert e cam mlDetections w))))"

text \<open>
  \<^verbatim>\<open>POST\<close> of the variant that answers with mock detections. The image is tested
  for presence and not read.
\<close>

definition POST_mock :: "rng \<Rightarrow> request_body \<Rightarrow> env \<Rightarrow> world \<Rightarrow> response \<times> world" where
  "POST_mock r req e w =
     (case req of
        BadJson \<Rightarrow> detectionFailed w
      | Body img cam \<Rightarrow>
          if noImage img then (Response 400 (ErrorBody ''No image provided''), w)
          else
            (let (mockDetections, p) = generateMockDetections_route r (random_calls w)
             in (Response 200 (DetectionBody mockDetections),
                 handleAlert e cam mockDetections (w\<lparr> random_calls := p \<rparr>))))"

text \<open>The alerts handed to \<^verbatim>\<open>sendAlertToAndroidApp\<close>, in order, as the console shows them.\<close>

fun alerts_sent :: "log_line list \<Rightarrow> alert list" where
  "alerts_sent [] = []"
| "alerts_sent (LogAlertSent a # ls) = a # alerts_sent ls"
| "alerts_sent (_ # ls) = alerts_sent ls"

text \<open>
  A sequence of processed frames: the requests are handled one after the other,
  each in the world the one before left.
\<close>

fun run_inference :: "(request_body \<times> env) list \<Rightarrow> world \<Rightarrow> response list \<times> world" where
  "run_inference [] w = ([], w)"
| "run_inference ((req, e) # fs) w =
     (let (resp, w') = POST_inference req e w;
          (resps, w'') = run_inference fs w'
      in (resp # resps, w''))"

fun run_mock :: "rng \<Rightarrow> (request_body \<times> env) list \<Rightarrow> world \<Rightarrow> response list \<times> world" where
  "run_mock r [] w = ([], w)"
| "run_mock r ((req, e) # fs) w =
     (let (resp, w') = POST_mock r req e w;
          (resps, w'') = run_mock r fs w'
      in (resp # resps, w''))"

text \<open>
  The alert a frame calls for, read off the answer to its request: the one
  alert of a detection result at high risk, and none otherwise.
\<close>

definition alert_of :: "request_body \<Rightarrow> env \<Rightarrow> response \<Rightarrow> alert list" where
  "alert_of req e resp =
     (case (req, payload resp) of
        (Body img cam, DetectionBody d) \<Rightarrow>
          (if riskLevel d = High then
             [\<lparr> alert_cameraId = cam, alert_count = count d,
                alert_riskLevel = High, alert_timestamp = now e \<rparr>]
           else [])
      | _ \<Rightarrow> [])"

section \<open>The detection step of the webcam component\<close>

text \<open>
  \<^verbatim>\<open>detectCrowd\<close>: the request to \<^verbatim>\<open>/api/detect-crowd\<close> and its \<^verbatim>\<open>catch\<close>. A rejected
  request, an answer that is not OK and a body that does not parse all end in
  the \<^verbatim>\<open>catch\<close>, which logs and returns \<^verbatim>\<open>generateMockDetections()\<close>. The second
  component is the number of calls of \<^verbatim>\<open>Math.random\<close> made afterwards, the third
  the lines logged.
\<close>

definition detectCrowd :: "rng \<Rightarrow> nat \<Rightarrow> fetch_outcome \<Rightarrow> DetectionResult \<times> nat \<times> log_line list" where
  "detectCrowd r p out =
     (case out of
        FetchRejected \<Rightarrow>
          (let (d, p') = generateMockDetections_webcam r p in (d, p', [ErrMlApi]))
      | FetchResponse st body \<Rightarrow>
          if \<not> ok st then
            (let (d, p') = generateMockDetections_webcam r p in (d, p', [ErrMlApi]))
          else
            (case body of
               None \<Rightarrow> (let (d, p') = generateMockDetections_webcam r p in (d, p', [ErrMlApi]))
             | Some d \<Rightarrow> (d, p, [])))"

text \<open>
  A detection call fails: the request throws or times out, the answer is not
  OK, or reading its body throws.
\<close>

definition call_fails :: "fetch_outcome \<Rightarrow> bool" where
  "call_fails out =
     (case out of
        FetchRejected \<Rightarrow> True
      | FetchResponse st body \<Rightarrow> \<not> ok st \<or> body = None)"

section \<open>Overlap of two boxes\<close>

text \<open>
  Intersection over union of two boxes given by corner, width and height, as
  the glossary of the specification defines it: the area of the intersection
  divided by the area of the union, and 0 when the union is empty.
\<close>

definition area :: "box \<Rightarrow> real" where
  "area b = width b * height b"

definition intersection :: "box \<Rightarrow> box \<Rightarrow> real" where
  "intersection a b =
     max 0 (min (x a + width a) (x b + width b) - max (x a) (x b))
     * max 0 (min (y a + height a) (y b + height b) - max (y a) (y b))"

definition iou :: "box \<Rightarrow> box \<Rightarrow> real" where
  "iou a b =
     (let u = area a + area b - intersection a b
      in if u = 0 then 0 else intersection a b / u)"

section \<open>Starting and stopping the webcam\<close>

datatype track_state = Live | Ended

text \<open>
  The video element: the stream it plays, by its handle, and whether it holds
  buffered media.
\<close>

record video =
  srcObject :: "nat option"
  buffered :: bool

text \<open>
  The state of \<^verbatim>\<open>WebcamFeed\<close> that \<^verbatim>\<open>initializeWebcam\<close> and \<^verbatim>\<open>stopWebcam\<close>
  read and write: the three refs, the three pieces of React
  state, and the browser's side: the media streams acquired so far (a stream is
  the list of its tracks, its handle is its index), the number of calls of
  \<^verbatim>\<open>getUserMedia\<close>, and the ids of the running intervals. A ref that
  holds an object is \<open>Some\<close>, and is truthy.
\<close>

record webcam =
  streamRef :: "nat option"
  videoRef :: "video option"
  detectionIntervalRef :: "nat option"
  isWebcamActive :: bool
  isWebcamEnabled :: bool
  error :: "string option"
  streams :: "track_state list list"
  mediaRequests :: nat
  intervals :: "nat list"

text \<open>The outcome of \<^verbatim>\<open>getUserMedia\<close>: a stream with some tracks, or a rejection.\<close>

datatype media_outcome = Granted nat | Denied

text \<open>
  \<^verbatim>\<open>initializeWebcam\<close>, run without interruption. The value of \<^verbatim>\<open>isWebcamEnabled\<close>
  it tests after the \<^verbatim>\<open>await\<close> is the one of the state.
\<close>

definition initializeWebcam :: "media_outcome \<Rightarrow> webcam \<Rightarrow> webcam" where
  "initializeWebcam gum s =
     (if streamRef s \<noteq> None then s
      else
        (case gum of
           Denied \<Rightarrow>
             s\<lparr> mediaRequests := mediaRequests s + 1,
                error := Some ''Unable to access webcam. Please check permissions.'',
                isWebcamActive := False,
                isWebcamEnabled := False \<rparr>
         | Granted n \<Rightarrow>
             if \<not> isWebcamEnabled s then
               s\<lparr> mediaRequests := mediaRequests s + 1,
                  streams := streams s @ [replicate n Ended] \<rparr>
             else
               s\<lparr> mediaRequests := mediaRequests s + 1,
                  streams := streams s @ [replicate n Live],
                  streamRef := Some (length (streams s)),
                  isWebcamActive := True,
                  error := None \<rparr>))"

text \<open>The four steps of \<^verbatim>\<open>stopWebcam\<close>, in the order of the source.\<close>

definition stopTracks :: "webcam \<Rightarrow> webcam" where
  "stopTracks s =
     (case streamRef s of
        None \<Rightarrow> s
      | Some h \<Rightarrow>
          s\<lparr> streams := (streams s)[h := map (\<lambda>t. Ended) (streams s ! h)],
             streamRef := None \<rparr>)"

definition clearVideo :: "webcam \<Rightarrow> webcam" where
  "clearVideo s =
     (case videoRef s of
        None \<Rightarrow> s
      | Some v \<Rightarrow> s\<lparr> videoRef := Some (v\<lparr> srcObject := None, buffered := False \<rparr>) \<rparr>)"

definition clearDetectionInterval :: "webcam \<Rightarrow> webcam" where
  "clearDetectionInterval s =
     (case detectionIntervalRef s of
        None \<Rightarrow> s
      | Some t \<Rightarrow>
          s\<lparr> intervals := removeAll t (intervals s),
             detectionIntervalRef := None \<rparr>)"

definition stopWebcam :: "webcam \<Rightarrow> webcam" where
  "stopWebcam s =
     clearDetectionInterval ((clearVideo (stopTracks s))\<lparr> isWebcamActive := False \<rparr>)"

section \<open>Example inputs\<close>

text \<open>A detection result at high risk, and a frame that the inference server answers with it.\<close>

definition high_result :: DetectionResult where
  "high_result = \<lparr> count = 12, riskLevel = High, boundingBoxes = [] \<rparr>"

definition high_frame :: "request_body \<times> env" where
  "high_frame =
     (Body (Some ''frame'') ''CAM-001'',
      \<lparr> ml = FetchResponse 200 (Some high_result), firestore_ok = True, now = ''t'' \<rparr>)"

definition high_alert :: alert where
  "high_alert =
     \<lparr> alert_cameraId = ''CAM-001'', alert_count = 12,
       alert_riskLevel = High, alert_timestamp = ''t'' \<rparr>"

definition empty_world :: world where
  "empty_world = \<lparr> alerts_collection = [], console = [], random_calls = 0 \<rparr>"

text \<open>A webcam that runs: one stream of two live tracks, attached to the video, and one interval.\<close>

definition running_webcam :: webcam where
  "running_webcam =
     \<lparr> streamRef = Some 0,
       videoRef = Some \<lparr> srcObject = Some 0, buffered = True \<rparr>,
       detectionIntervalRef = Some 1,
       isWebcamActive = True,
       isWebcamEnabled = True,
       error = None,
       streams = [[Live, Live]],
       mediaRequests = 1,
       intervals = [1] \<rparr>"






section \<open>Properties of the generators\<close>

lemma floor_scaled_bounds:
  fixes v :: real
  assumes "0 \<le> v" "v < 1" "0 < k"
  shows "0 \<le> \<lfloor>v * of_int k\<rfloor> \<and> \<lfloor>v * of_int k\<rfloor> < k"
proof
  have "0 \<le> v * of_int k" using assms by simp
  then show "0 \<le> \<lfloor>v * of_int k\<rfloor>" by simp
  have "v * of_int k < of_int k" using assms by simp
  then show "\<lfloor>v * of_int k\<rfloor> < k" by (simp add: floor_less_iff)
qed

lemma route_count_bounds:
  assumes "unit_rng r"
  shows "1 \<le> count (fst (generateMockDetections_route r p))
       \<and> count (fst (generateMockDetections_route r p)) \<le> 15"
proof -
  have "0 \<le> r p" "r p < 1" using assms by (simp_all add: unit_rng_def)
  then have "0 \<le> \<lfloor>r p * of_int 15\<rfloor> \<and> \<lfloor>r p * of_int 15\<rfloor> < 15"
    by (intro floor_scaled_bounds) simp_all
  then show ?thesis by (simp add: generateMockDetections_route_def Let_def)
qed

lemma webcam_count_bounds:
  assumes "unit_rng r"
  shows "1 \<le> count (fst (generateMockDetections_webcam r p))
       \<and> count (fst (generateMockDetections_webcam r p)) \<le> 10"
proof -
  have "0 \<le> r p" "r p < 1" using assms by (simp_all add: unit_rng_def)
  then have "0 \<le> \<lfloor>r p * of_int 10\<rfloor> \<and> \<lfloor>r p * of_int 10\<rfloor> < 10"
    by (intro floor_scaled_bounds) simp_all
  then show ?thesis by (simp add: generateMockDetections_webcam_def Let_def)
qed

lemma route_boxes_length:
  "int (length (boundingBoxes (fst (generateMockDetections_route r p))))
     = max 0 (count (fst (generateMockDetections_route r p)))"
  by (simp add: generateMockDetections_route_def Let_def)

lemma webcam_boxes_length:
  "int (length (boundingBoxes (fst (generateMockDetections_webcam r p))))
     = max 0 (count (fst (generateMockDetections_webcam r p)))"
  by (simp add: generateMockDetections_webcam_def Let_def)

section \<open>Properties of the route and of the detection step\<close>

lemma alerts_sent_append:
  "alerts_sent (ls @ ms) = alerts_sent ls @ alerts_sent ms"
  by (induction ls rule: alerts_sent.induct) simp_all

lemma handleAlert_alerts_sent:
  "alerts_sent (console (handleAlert e cam d w)) =
     alerts_sent (console w) @
       (if riskLevel d = High then
          [\<lparr> alert_cameraId = cam, alert_count = count d,
             alert_riskLevel = High, alert_timestamp = now e \<rparr>]
        else [])"
  by (simp add: handleAlert_def sendAlertToAndroidApp_def storeAlert_def alerts_sent_append)

lemma handleAlert_alerts_sent_random_calls:
  "alerts_sent (console (handleAlert e cam d (w\<lparr> random_calls := p \<rparr>))) =
     alerts_sent (console w) @
       (if riskLevel d = High then
          [\<lparr> alert_cameraId = cam, alert_count = count d,
             alert_riskLevel = High, alert_timestamp = now e \<rparr>]
        else [])"
  by (simp add: handleAlert_alerts_sent)

lemma POST_inference_alerts:
  "alerts_sent (console (snd (POST_inference req e w))) =
     alerts_sent (console w) @ alert_of req e (fst (POST_inference req e w))"
  by (simp add: POST_inference_def alert_of_def detectionFailed_def alerts_sent_append
        handleAlert_alerts_sent
      split: request_body.splits fetch_outcome.splits option.splits)

lemma POST_mock_alerts:
  "alerts_sent (console (snd (POST_mock r req e w))) =
     alerts_sent (console w) @ alert_of req e (fst (POST_mock r req e w))"
  by (simp add: POST_mock_def alert_of_def detectionFailed_def alerts_sent_append
        handleAlert_alerts_sent_random_calls
      split: request_body.splits prod.splits)


lemma handleAlert_random_calls:
  "random_calls (handleAlert e cam d w) = random_calls w"
  by (simp add: handleAlert_def sendAlertToAndroidApp_def storeAlert_def)

text \<open>The alerts a run of frames calls for: those of each frame, in order.\<close>

lemma run_inference_alerts:
  "alerts_sent (console (snd (run_inference fs w))) =
     alerts_sent (console w) @
       concat (map (\<lambda>((req, e), resp). alert_of req e resp) (zip fs (fst (run_inference fs w))))"
proof (induction fs arbitrary: w)
  case Nil
  show ?case by simp
next
  case (Cons f fs)
  obtain req e where f: "f = (req, e)" by (cases f)
  obtain resp w' where p: "POST_inference req e w = (resp, w')" by (cases "POST_inference req e w")
  obtain resps w'' where q: "run_inference fs w' = (resps, w'')" by (cases "run_inference fs w'")
  have a: "alerts_sent (console w') = alerts_sent (console w) @ alert_of req e resp"
    using POST_inference_alerts [of req e w] p by simp
  have b: "alerts_sent (console w'') =
      alerts_sent (console w') @
        concat (map (\<lambda>((req, e), resp). alert_of req e resp) (zip fs resps))"
    using Cons.IH [of w'] q by simp
  show ?case using a b by (simp add: f p q)
qed

lemma run_mock_alerts:
  "alerts_sent (console (snd (run_mock r fs w))) =
     alerts_sent (console w) @
       concat (map (\<lambda>((req, e), resp). alert_of req e resp) (zip fs (fst (run_mock r fs w))))"
proof (induction fs arbitrary: w)
  case Nil
  show ?case by simp
next
  case (Cons f fs)
  obtain req e where f: "f = (req, e)" by (cases f)
  obtain resp w' where p: "POST_mock r req e w = (resp, w')" by (cases "POST_mock r req e w")
  obtain resps w'' where q: "run_mock r fs w' = (resps, w'')" by (cases "run_mock r fs w'")
  have a: "alerts_sent (console w') = alerts_sent (console w) @ alert_of req e resp"
    using POST_mock_alerts [of r req e w] p by simp
  have b: "alerts_sent (console w'') =
      alerts_sent (console w') @
        concat (map (\<lambda>((req, e), resp). alert_of req e resp) (zip fs resps))"
    using Cons.IH [of w'] q by simp
  show ?case using a b by (simp add: f p q)
qed

section \<open>The generators read only the values they draw\<close>



lemma route_confidence:
  assumes "unit_rng r" and "b \<in> set (boundingBoxes (fst (generateMockDetections_route r p)))"
  shows "\<exists>c. confidence b = Some c \<and> 7 / 10 \<le> c \<and> c < 1"
proof -
  from assms(2) obtain i where b: "b = mkBox_route r (p + 1 + 5 * i)"
    by (auto simp: generateMockDetections_route_def Let_def)
  have "0 \<le> r (p + 1 + 5 * i + 4)" "r (p + 1 + 5 * i + 4) < 1"
    using assms(1) by (simp_all add: unit_rng_def)
  then show ?thesis by (simp add: b mkBox_route_def)
qed

section \<open>Stopping the webcam\<close>

lemma stopWebcam_refs:
  "streamRef (stopWebcam s) = None
   \<and> detectionIntervalRef (stopWebcam s) = None
   \<and> \<not> isWebcamActive (stopWebcam s)"
  by (simp add: stopWebcam_def clearDetectionInterval_def clearVideo_def stopTracks_def
      split: option.splits)

lemma stopWebcam_idem:
  "stopWebcam (stopWebcam s) = stopWebcam s"
  by (simp add: stopWebcam_def clearDetectionInterval_def clearVideo_def stopTracks_def
      split: option.splits)

lemma stopWebcam_tracks:
  assumes "streamRef s = Some h" and "h < length (streams s)"
  shows "streams (stopWebcam s) ! h = replicate (length (streams s ! h)) Ended"
  using assms
  by (simp add: stopWebcam_def clearDetectionInterval_def clearVideo_def stopTracks_def
        map_replicate_const
      split: option.splits)

lemma stopWebcam_interval:
  assumes "detectionIntervalRef s = Some t"
  shows "t \<notin> set (intervals (stopWebcam s))"
  using assms
  by (simp add: stopWebcam_def clearDetectionInterval_def clearVideo_def stopTracks_def
      split: option.splits)

section \<open>Claims about the classifier and the generators\<close>

text \<open>
  Claim C10. Every result of the mock detection generator reports at least one
  person: with \<^verbatim>\<open>Math.random\<close> in [0, 1), the count lies between 1 and 15 in the
  route variant and between 1 and 10 in the webcam variant, and it equals the
  number of bounding boxes returned.
\<close>

theorem mock_reports_at_least_one_person:
  assumes "unit_rng r"
  shows "1 \<le> count (fst (generateMockDetections_route r p))
       \<and> count (fst (generateMockDetections_route r p)) \<le> 15
       \<and> int (length (boundingBoxes (fst (generateMockDetections_route r p))))
           = count (fst (generateMockDetections_route r p))
       \<and> 1 \<le> count (fst (generateMockDetections_webcam r p))
       \<and> count (fst (generateMockDetections_webcam r p)) \<le> 10
       \<and> int (length (boundingBoxes (fst (generateMockDetections_webcam r p))))
           = count (fst (generateMockDetections_webcam r p))"
proof -
  note rb = route_count_bounds [OF assms, of p]
  note wb = webcam_count_bounds [OF assms, of p]
  have "int (length (boundingBoxes (fst (generateMockDetections_route r p))))
          = count (fst (generateMockDetections_route r p))"
    using rb route_boxes_length [of r p] by simp
  moreover have "int (length (boundingBoxes (fst (generateMockDetections_webcam r p))))
          = count (fst (generateMockDetections_webcam r p))"
    using wb webcam_boxes_length [of r p] by simp
  ultimately show ?thesis using rb wb by simp
qed

theorem mock_reports_at_least_one_person_witness:
  "unit_rng (\<lambda>n. 1 / 2)
   \<and> count (fst (generateMockDetections_route (\<lambda>n. 1 / 2) 0)) = 8
   \<and> length (boundingBoxes (fst (generateMockDetections_route (\<lambda>n. 1 / 2) 0))) = 8
   \<and> count (fst (generateMockDetections_webcam (\<lambda>n. 1 / 2) 0)) = 6
   \<and> length (boundingBoxes (fst (generateMockDetections_webcam (\<lambda>n. 1 / 2) 0))) = 6"
proof -
  have u: "unit_rng (\<lambda>n. 1 / 2)" by (simp add: unit_rng_def)
  have cr: "count (fst (generateMockDetections_route (\<lambda>n. 1 / 2) 0)) = 8"
    by (simp add: generateMockDetections_route_def Let_def)
  have cw: "count (fst (generateMockDetections_webcam (\<lambda>n. 1 / 2) 0)) = 6"
    by (simp add: generateMockDetections_webcam_def Let_def)
  show ?thesis
    using u cr cw mock_reports_at_least_one_person [OF u, of 0] by simp
qed

text \<open>
  Claim C3, as stated: the classifier is the banded function of the
  specification with a default medium threshold of 5 or 6 and a default high
  threshold of 10 or 11. It fails: the route variant calls a count of 6 low, and
  the webcam variant calls a count of 8 high, while each of the four admitted
  pairs of thresholds calls both counts medium.
\<close>

theorem default_bands_counterexample:
  "riskLevel_route 6 = Low \<and> riskLevel_webcam 8 = High
   \<and> classify_spec 5 10 6 = Medium \<and> classify_spec 5 11 6 = Medium
   \<and> classify_spec 6 10 6 = Medium \<and> classify_spec 6 11 6 = Medium
   \<and> classify_spec 5 10 8 = Medium \<and> classify_spec 5 11 8 = Medium
   \<and> classify_spec 6 10 8 = Medium \<and> classify_spec 6 11 8 = Medium"
  by (simp add: riskLevel_route_def riskLevel_webcam_def classify_spec_def)

text \<open>
  Claim C3, amended: the classifier is the banded function of the specification
  with the thresholds the source fixes: medium from 7 and high from 11 in the
  route variant, medium from 5 and high from 8 in the webcam variant.
\<close>

theorem risk_bands_of_the_source:
  "riskLevel_route c = classify_spec 7 11 c
   \<and> riskLevel_webcam c = classify_spec 5 8 c"
  by (simp add: riskLevel_route_def riskLevel_webcam_def classify_spec_def)

text \<open>
  Claim C5. The risk classification is monotone: for counts \<open>a \<le> b\<close> the level of
  \<open>a\<close> is at most the level of \<open>b\<close> in the order low < medium < high, in both
  variants of the source, and in the banded function of the specification for
  any fixed pair of thresholds.
\<close>

theorem risk_level_monotone:
  assumes "a \<le> b"
  shows "risk_rank (riskLevel_route a) \<le> risk_rank (riskLevel_route b)
       \<and> risk_rank (riskLevel_webcam a) \<le> risk_rank (riskLevel_webcam b)
       \<and> risk_rank (classify_spec mt ht a) \<le> risk_rank (classify_spec mt ht b)"
  using assms by (simp add: riskLevel_route_def riskLevel_webcam_def classify_spec_def)

theorem risk_level_monotone_witness:
  "(6::int) \<le> 11
   \<and> risk_rank (riskLevel_route 6) \<le> risk_rank (riskLevel_route 11)
   \<and> risk_rank (riskLevel_webcam 6) \<le> risk_rank (riskLevel_webcam 11)
   \<and> riskLevel_route 6 = Low \<and> riskLevel_route 11 = High"
proof -
  have h: "(6::int) \<le> 11" by simp
  show ?thesis
    using h risk_level_monotone [OF h, of 7 11]
    by (simp add: riskLevel_route_def)
qed




section \<open>Claims about the route and the detection step\<close>

text \<open>
  Claim C2, as stated: an alert is emitted only on the transition into high
  risk, so that the second of two consecutive frames at high risk emits none.
  It fails: two consecutive frames at high risk emit one alert each.
\<close>

theorem edge_triggered_alert_counterexample:
  "fst (run_inference [high_frame, high_frame] empty_world)
     = [Response 200 (DetectionBody high_result), Response 200 (DetectionBody high_result)]
   \<and> alerts_sent (console (snd (run_inference [high_frame] empty_world))) = [high_alert]
   \<and> alerts_sent (console (snd (run_inference [high_frame, high_frame] empty_world)))
       = [high_alert, high_alert]"
  by (simp add: high_frame_def high_result_def high_alert_def empty_world_def
        POST_inference_def noImage_def ok_def handleAlert_def storeAlert_def
        sendAlertToAndroidApp_def)

text \<open>
  Claim C2, amended: the alert is level-triggered. Each processed frame whose
  detection result is at high risk emits one alert with the camera id, the
  count, the risk level and the timestamp, whatever the frame before was, and a
  frame with any other answer emits none; over a sequence of frames the alerts
  emitted are those of its frames, in order.
\<close>

theorem alert_is_level_triggered:
  "alerts_sent (console (snd (POST_inference req e w)))
     = alerts_sent (console w) @ alert_of req e (fst (POST_inference req e w))
   \<and> alerts_sent (console (snd (POST_mock r req e w)))
     = alerts_sent (console w) @ alert_of req e (fst (POST_mock r req e w))
   \<and> alerts_sent (console (snd (run_inference fs w)))
     = alerts_sent (console w) @
         concat (map (\<lambda>((req, e), resp). alert_of req e resp)
                   (zip fs (fst (run_inference fs w))))
   \<and> alerts_sent (console (snd (run_mock r fs w)))
     = alerts_sent (console w) @
         concat (map (\<lambda>((req, e), resp). alert_of req e resp)
                   (zip fs (fst (run_mock r fs w))))"
  using POST_inference_alerts [of req e w] POST_mock_alerts [of r req e w]
    run_inference_alerts [of fs w] run_mock_alerts [of r fs w]
  by simp

text \<open>
  Claim C1, as stated: a frame whose detection call fails gets an empty
  detection list. It fails: when the request is rejected, or answered with a
  500, the detection step returns a mock result of one person and one box
  (with \<^verbatim>\<open>Math.random\<close> returning 0 throughout).
\<close>

theorem failed_detection_counterexample:
  "call_fails FetchRejected
   \<and> count (fst (detectCrowd (\<lambda>n. 0) 0 FetchRejected)) = 1
   \<and> length (boundingBoxes (fst (detectCrowd (\<lambda>n. 0) 0 FetchRejected))) = 1
   \<and> call_fails (FetchResponse 500 None)
   \<and> count (fst (detectCrowd (\<lambda>n. 0) 0 (FetchResponse 500 None))) = 1
   \<and> length (boundingBoxes (fst (detectCrowd (\<lambda>n. 0) 0 (FetchResponse 500 None)))) = 1"
  by (simp add: call_fails_def ok_def detectCrowd_def generateMockDetections_webcam_def)

text \<open>
  Claim C1, amended: for every frame whose detection call fails, the detection
  step logs the error and returns the result of the mock generator: a count
  between 1 and 10 and as many bounding boxes, never an empty list.
\<close>

theorem failed_detection_returns_mock:
  assumes "call_fails out" and "unit_rng r"
  shows "detectCrowd r p out =
           (fst (generateMockDetections_webcam r p),
            snd (generateMockDetections_webcam r p), [ErrMlApi])
       \<and> 1 \<le> count (fst (detectCrowd r p out))
       \<and> count (fst (detectCrowd r p out)) \<le> 10
       \<and> int (length (boundingBoxes (fst (detectCrowd r p out))))
           = count (fst (detectCrowd r p out))
       \<and> boundingBoxes (fst (detectCrowd r p out)) \<noteq> []"
proof -
  have eq: "detectCrowd r p out =
           (fst (generateMockDetections_webcam r p),
            snd (generateMockDetections_webcam r p), [ErrMlApi])"
    using assms(1)
    by (auto simp: detectCrowd_def call_fails_def split: fetch_outcome.splits prod.splits)
  note wb = webcam_count_bounds [OF assms(2), of p]
  have len: "int (length (boundingBoxes (fst (generateMockDetections_webcam r p))))
          = count (fst (generateMockDetections_webcam r p))"
    using wb webcam_boxes_length [of r p] by simp
  have ne: "boundingBoxes (fst (generateMockDetections_webcam r p)) \<noteq> []"
    using len wb by auto
  show ?thesis using eq wb len ne by simp
qed

theorem failed_detection_returns_mock_witness:
  "call_fails (FetchResponse 503 None) \<and> unit_rng (\<lambda>n. 1 / 2)
   \<and> count (fst (detectCrowd (\<lambda>n. 1 / 2) 0 (FetchResponse 503 None))) = 6
   \<and> length (boundingBoxes (fst (detectCrowd (\<lambda>n. 1 / 2) 0 (FetchResponse 503 None)))) = 6"
proof -
  have f: "call_fails (FetchResponse 503 None)" by (simp add: call_fails_def ok_def)
  have u: "unit_rng (\<lambda>n. 1 / 2)" by (simp add: unit_rng_def)
  have c: "count (fst (generateMockDetections_webcam (\<lambda>n. 1 / 2) 0)) = 6"
    by (simp add: generateMockDetections_webcam_def Let_def)
  note t = failed_detection_returns_mock [OF f u, of 0]
  have cc: "count (fst (detectCrowd (\<lambda>n. 1 / 2) 0 (FetchResponse 503 None))) = 6"
    using t c by simp
  have "int (length (boundingBoxes (fst (detectCrowd (\<lambda>n. 1 / 2) 0 (FetchResponse 503 None)))))
          = count (fst (detectCrowd (\<lambda>n. 1 / 2) 0 (FetchResponse 503 None)))"
    using t by blast
  then have "length (boundingBoxes (fst (detectCrowd (\<lambda>n. 1 / 2) 0 (FetchResponse 503 None))))
          = 6"
    using cc by linarith
  then show ?thesis using f u cc by blast
qed

text \<open>
  Claim C8. A failure to store the alert does not fail the request: when the
  Firestore write throws, the handler answers as it does when the write
  succeeds, and hands over the same alerts; on a frame at high risk the answer
  is the detection result with status 200, the error is logged, and nothing is
  stored. This holds in the inference variant and in the mock variant.
\<close>

theorem firestore_failure_absorbed:
  "fst (POST_inference req (e\<lparr> firestore_ok := False \<rparr>) w)
     = fst (POST_inference req (e\<lparr> firestore_ok := True \<rparr>) w)
   \<and> alerts_sent (console (snd (POST_inference req (e\<lparr> firestore_ok := False \<rparr>) w)))
     = alerts_sent (console (snd (POST_inference req (e\<lparr> firestore_ok := True \<rparr>) w)))
   \<and> fst (POST_mock r req (e\<lparr> firestore_ok := False \<rparr>) w)
     = fst (POST_mock r req (e\<lparr> firestore_ok := True \<rparr>) w)
   \<and> alerts_sent (console (snd (POST_mock r req (e\<lparr> firestore_ok := False \<rparr>) w)))
     = alerts_sent (console (snd (POST_mock r req (e\<lparr> firestore_ok := True \<rparr>) w)))
   \<and> (\<not> noImage img \<and> ml e = FetchResponse st (Some d) \<and> ok st \<and> riskLevel d = High
        \<longrightarrow> POST_inference (Body img cam) (e\<lparr> firestore_ok := False \<rparr>) w
             = (Response 200 (DetectionBody d),
                w\<lparr> console := console w @
                     [ErrFirestore,
                      LogAlertSent \<lparr> alert_cameraId = cam, alert_count = count d,
                        alert_riskLevel = High, alert_timestamp = now e \<rparr>] \<rparr>))
   \<and> (\<not> noImage img
        \<and> riskLevel (fst (generateMockDetections_route r (random_calls w))) = High
        \<longrightarrow> POST_mock r (Body img cam) (e\<lparr> firestore_ok := False \<rparr>) w
             = (Response 200 (DetectionBody (fst (generateMockDetections_route r (random_calls w)))),
                w\<lparr> random_calls := snd (generateMockDetections_route r (random_calls w)),
                   console := console w @
                     [ErrFirestore,
                      LogAlertSent \<lparr> alert_cameraId = cam,
                        alert_count = count (fst (generateMockDetections_route r (random_calls w))),
                        alert_riskLevel = High, alert_timestamp = now e \<rparr>] \<rparr>))"
proof -
  have a: "fst (POST_inference req (e\<lparr> firestore_ok := False \<rparr>) w)
     = fst (POST_inference req (e\<lparr> firestore_ok := True \<rparr>) w)"
    by (simp add: POST_inference_def detectionFailed_def
        split: request_body.splits fetch_outcome.splits option.splits)
  have b: "alerts_sent (console (snd (POST_inference req (e\<lparr> firestore_ok := False \<rparr>) w)))
     = alerts_sent (console (snd (POST_inference req (e\<lparr> firestore_ok := True \<rparr>) w)))"
    by (simp add: POST_inference_def detectionFailed_def handleAlert_alerts_sent
          alerts_sent_append
        split: request_body.splits fetch_outcome.splits option.splits)
  have c: "fst (POST_mock r req (e\<lparr> firestore_ok := False \<rparr>) w)
     = fst (POST_mock r req (e\<lparr> firestore_ok := True \<rparr>) w)"
    by (simp add: POST_mock_def detectionFailed_def
        split: request_body.splits prod.splits)
  have d: "alerts_sent (console (snd (POST_mock r req (e\<lparr> firestore_ok := False \<rparr>) w)))
     = alerts_sent (console (snd (POST_mock r req (e\<lparr> firestore_ok := True \<rparr>) w)))"
    by (simp add: POST_mock_def detectionFailed_def handleAlert_alerts_sent_random_calls
          alerts_sent_append
        split: request_body.splits prod.splits)
  have f: "\<not> noImage img \<and> ml e = FetchResponse st (Some d) \<and> ok st \<and> riskLevel d = High
        \<longrightarrow> POST_inference (Body img cam) (e\<lparr> firestore_ok := False \<rparr>) w
             = (Response 200 (DetectionBody d),
                w\<lparr> console := console w @
                     [ErrFirestore,
                      LogAlertSent \<lparr> alert_cameraId = cam, alert_count = count d,
                        alert_riskLevel = High, alert_timestamp = now e \<rparr>] \<rparr>)"
    by (simp add: POST_inference_def handleAlert_def storeAlert_def sendAlertToAndroidApp_def)
  have g: "\<not> noImage img
        \<and> riskLevel (fst (generateMockDetections_route r (random_calls w))) = High
        \<longrightarrow> POST_mock r (Body img cam) (e\<lparr> firestore_ok := False \<rparr>) w
             = (Response 200 (DetectionBody (fst (generateMockDetections_route r (random_calls w)))),
                w\<lparr> random_calls := snd (generateMockDetections_route r (random_calls w)),
                   console := console w @
                     [ErrFirestore,
                      LogAlertSent \<lparr> alert_cameraId = cam,
                        alert_count = count (fst (generateMockDetections_route r (random_calls w))),
                        alert_riskLevel = High, alert_timestamp = now e \<rparr>] \<rparr>)"
    by (simp add: POST_mock_def handleAlert_def storeAlert_def sendAlertToAndroidApp_def
        split: prod.splits)
  show ?thesis using a b c d f g by blast
qed

theorem firestore_failure_absorbed_witness:
  "\<not> noImage (Some ''frame'')
   \<and> ml (snd high_frame) = FetchResponse 200 (Some high_result)
   \<and> ok 200 \<and> riskLevel high_result = High
   \<and> POST_inference (Body (Some ''frame'') ''CAM-001'')
        ((snd high_frame)\<lparr> firestore_ok := False \<rparr>) empty_world
       = (Response 200 (DetectionBody high_result),
          empty_world\<lparr> console := [ErrFirestore, LogAlertSent high_alert] \<rparr>)
   \<and> fst (POST_inference (Body (Some ''frame'') ''CAM-001'')
        ((snd high_frame)\<lparr> firestore_ok := True \<rparr>) empty_world)
       = Response 200 (DetectionBody high_result)"
proof -
  have h: "\<not> noImage (Some ''frame'')
      \<and> ml (snd high_frame) = FetchResponse 200 (Some high_result)
      \<and> ok 200 \<and> riskLevel high_result = High"
    by (simp add: noImage_def high_frame_def ok_def high_result_def)
  note t = firestore_failure_absorbed
    [where req = "Body (Some ''frame'') ''CAM-001''" and e = "snd high_frame"
       and w = empty_world and img = "Some ''frame''" and st = 200 and d = high_result
       and cam = "''CAM-001''"]
  have p: "POST_inference (Body (Some ''frame'') ''CAM-001'')
        ((snd high_frame)\<lparr> firestore_ok := False \<rparr>) empty_world
       = (Response 200 (DetectionBody high_result),
          empty_world\<lparr> console := [ErrFirestore, LogAlertSent high_alert] \<rparr>)"
    using t h by (simp add: high_alert_def high_frame_def high_result_def empty_world_def)
  have q: "fst (POST_inference (Body (Some ''frame'') ''CAM-001'')
        ((snd high_frame)\<lparr> firestore_ok := True \<rparr>) empty_world)
       = Response 200 (DetectionBody high_result)"
    using t p by simp
  show ?thesis using h p q by blast
qed



text \<open>
  Claim C7, as stated: no two retained detections overlap with an intersection
  over union above 0.45. It fails on the mock generator, which draws each box
  on its own and suppresses none: when every value of \<^verbatim>\<open>Math.random\<close> is one half,
  the eight boxes coincide, and the first two overlap with ratio 1.
\<close>

theorem overlap_counterexample:
  "length (boundingBoxes (fst (generateMockDetections_route (\<lambda>n. 1 / 2) 0))) = 8
   \<and> iou (boundingBoxes (fst (generateMockDetections_route (\<lambda>n. 1 / 2) 0)) ! 0)
          (boundingBoxes (fst (generateMockDetections_route (\<lambda>n. 1 / 2) 0)) ! 1) = 1
   \<and> 45 / 100 < iou (boundingBoxes (fst (generateMockDetections_route (\<lambda>n. 1 / 2) 0)) ! 0)
          (boundingBoxes (fst (generateMockDetections_route (\<lambda>n. 1 / 2) 0)) ! 1)"
proof -
  have c: "\<lfloor>(1 / 2 :: real) * 15\<rfloor> + 1 = 8" by simp
  have l: "length (boundingBoxes (fst (generateMockDetections_route (\<lambda>n. 1 / 2) 0))) = 8"
    by (simp add: generateMockDetections_route_def Let_def)
  have b0: "boundingBoxes (fst (generateMockDetections_route (\<lambda>n. 1 / 2) 0)) ! 0
      = mkBox_route (\<lambda>n. 1 / 2) 1"
    by (simp add: generateMockDetections_route_def Let_def)
  have b1: "boundingBoxes (fst (generateMockDetections_route (\<lambda>n. 1 / 2) 0)) ! 1
      = mkBox_route (\<lambda>n. 1 / 2) 6"
    by (simp add: generateMockDetections_route_def Let_def)
  have i: "iou (mkBox_route (\<lambda>n. 1 / 2) 1) (mkBox_route (\<lambda>n. 1 / 2) 6) = 1"
    by (simp add: iou_def area_def intersection_def mkBox_route_def Let_def)
  show ?thesis unfolding b0 b1 using l i by simp
qed

text \<open>
  Claim C7, amended: every detection of the mock generator of the route has a
  confidence in the closed interval [0, 1], indeed at least 0.7 and below 1.
  Nothing is promised about the overlap of two detections.
\<close>

theorem mock_confidence_in_unit_interval:
  assumes "unit_rng r"
    and "b \<in> set (boundingBoxes (fst (generateMockDetections_route r p)))"
  shows "\<exists>c. confidence b = Some c \<and> 0 \<le> c \<and> c \<le> 1 \<and> 7 / 10 \<le> c \<and> c < 1"
proof -
  from route_confidence [OF assms] obtain c
    where "confidence b = Some c" "7 / 10 \<le> c" "c < 1" by blast
  then show ?thesis by (intro exI [of _ c]) simp
qed

theorem mock_confidence_in_unit_interval_witness:
  "unit_rng (\<lambda>n. 1 / 2)
   \<and> mkBox_route (\<lambda>n. 1 / 2) 1
       \<in> set (boundingBoxes (fst (generateMockDetections_route (\<lambda>n. 1 / 2) 0)))
   \<and> confidence (mkBox_route (\<lambda>n. 1 / 2) 1) = Some (17 / 20)
   \<and> (\<exists>c. confidence (mkBox_route (\<lambda>n. 1 / 2) 1) = Some c \<and> 0 \<le> c \<and> c \<le> 1
           \<and> 7 / 10 \<le> c \<and> c < 1)"
proof -
  have u: "unit_rng (\<lambda>n. 1 / 2)" by (simp add: unit_rng_def)
  have "boundingBoxes (fst (generateMockDetections_route (\<lambda>n. 1 / 2) 0)) ! 0
      = mkBox_route (\<lambda>n. 1 / 2) 1"
    by (simp add: generateMockDetections_route_def Let_def)
  moreover have "0 < length (boundingBoxes (fst (generateMockDetections_route (\<lambda>n. 1 / 2) 0)))"
    by (simp add: generateMockDetections_route_def Let_def)
  ultimately have m: "mkBox_route (\<lambda>n. 1 / 2) 1
       \<in> set (boundingBoxes (fst (generateMockDetections_route (\<lambda>n. 1 / 2) 0)))"
    by (metis nth_mem)
  have k: "confidence (mkBox_route (\<lambda>n. 1 / 2) 1) = Some (17 / 20)"
    by (simp add: mkBox_route_def)
  show ?thesis
    using u m k mock_confidence_in_unit_interval [OF u m] by blast
qed

text \<open>
  Claim C9. Stop is idempotent and start is safe to repeat: stopping twice
  leaves the state that stopping once leaves, in which every track of the
  stream that was held has ended, the stream reference is cleared, the
  detection interval is cleared and its reference is cleared, and the webcam is
  marked inactive; starting while a stream is held changes nothing, so no
  second stream is requested or acquired.
\<close>

theorem stop_idempotent_start_reentrant:
  "stopWebcam (stopWebcam s) = stopWebcam s
   \<and> streamRef (stopWebcam s) = None
   \<and> detectionIntervalRef (stopWebcam s) = None
   \<and> \<not> isWebcamActive (stopWebcam s)
   \<and> (streamRef s = Some h \<and> h < length (streams s)
        \<longrightarrow> streams (stopWebcam s) ! h = replicate (length (streams s ! h)) Ended)
   \<and> (detectionIntervalRef s = Some t \<longrightarrow> t \<notin> set (intervals (stopWebcam s)))
   \<and> (streamRef s \<noteq> None
        \<longrightarrow> initializeWebcam gum s = s
            \<and> streams (initializeWebcam gum s) = streams s
            \<and> mediaRequests (initializeWebcam gum s) = mediaRequests s)"
proof -
  have "initializeWebcam gum s = s" if "streamRef s \<noteq> None"
    using that by (simp add: initializeWebcam_def)
  then show ?thesis
    using stopWebcam_idem [of s] stopWebcam_refs [of s] stopWebcam_tracks [of s h]
      stopWebcam_interval [of s t]
    by simp
qed

theorem stop_idempotent_start_reentrant_witness:
  "streamRef running_webcam = Some 0
   \<and> 0 < length (streams running_webcam)
   \<and> detectionIntervalRef running_webcam = Some 1
   \<and> streams (stopWebcam running_webcam) ! 0 = [Ended, Ended]
   \<and> 1 \<notin> set (intervals (stopWebcam running_webcam))
   \<and> stopWebcam (stopWebcam running_webcam) = stopWebcam running_webcam
   \<and> initializeWebcam (Granted 1) running_webcam = running_webcam"
proof -
  have h: "streamRef running_webcam = Some 0 \<and> 0 < length (streams running_webcam)
      \<and> detectionIntervalRef running_webcam = Some 1"
    by (simp add: running_webcam_def)
  note t = stop_idempotent_start_reentrant
    [where s = running_webcam and h = 0 and t = 1 and gum = "Granted 1"]
  have a: "streams (stopWebcam running_webcam) ! 0 = [Ended, Ended]"
    using t h by (simp add: running_webcam_def)
  have b: "1 \<notin> set (intervals (stopWebcam running_webcam))"
    using t h by blast
  have c: "stopWebcam (stopWebcam running_webcam) = stopWebcam running_webcam"
    using t by blast
  have d: "initializeWebcam (Granted 1) running_webcam = running_webcam"
    using t h by simp
  show ?thesis using h a b c d by blast
qed

end
